theory Spec2Isabelle
  imports Complex_Main
begin

section \<open>Python values and the built-ins the application calls\<close>

text \<open>
  LedgerLens is two Streamlit scripts, \<^verbatim>\<open>milestone-1/app1.py\<close> and
  \<^verbatim>\<open>milestone-2/app2.py\<close>. Both keep receipts in an SQLite table, fill it from a
  JSON payload that a language model extracts from an uploaded image, and recompute each
  bill's total in the History tab. Functions of the first script carry the prefix
  \<open>m1_\<close>, those of the second \<open>m2_\<close>.

  A value produced by \<^verbatim>\<open>json.loads\<close> is \<^verbatim>\<open>None\<close>, a bool, a number, a string,
  a list or a dict. A dict is represented by its items in insertion order (the keys of a
  Python dict are distinct). Numbers are exact reals: Python's \<^verbatim>\<open>int\<close> and the finite
  values of \<^verbatim>\<open>float\<close> are embedded without rounding, and \<^verbatim>\<open>inf\<close> and \<^verbatim>\<open>nan\<close>
  are not represented. Strings are lists of 8-bit characters.
\<close>

datatype pyval =
    PNone
  | PBool bool
  | PNum real
  | PStr string
  | PList "pyval list"
  | PDict "(string \<times> pyval) list"

type_synonym pydict = "(string \<times> pyval) list"

datatype py_error =
    TypeError
  | ValueError
  | AttributeError
  | IntegrityError
  | BindingError
  | ImageError

definition bind_err :: "'e + 'a \<Rightarrow> ('a \<Rightarrow> 'e + 'b) \<Rightarrow> 'e + 'b" where
  "bind_err m f = (case m of Inl e \<Rightarrow> Inl e | Inr x \<Rightarrow> f x)"

text \<open>\<^verbatim>\<open>d.get(k, default)\<close> on a dict.\<close>

definition dict_get :: "pydict \<Rightarrow> string \<Rightarrow> pyval \<Rightarrow> pyval" where
  "dict_get d k dflt = (case map_of d k of None \<Rightarrow> dflt | Some v \<Rightarrow> v)"

text \<open>
  \<^verbatim>\<open>v.get(k, default)\<close> on any value: only a dict has the method, every other value
  raises \<^verbatim>\<open>AttributeError\<close>.
\<close>

fun py_get :: "pyval \<Rightarrow> string \<Rightarrow> pyval \<Rightarrow> py_error + pyval" where
  "py_get (PDict d) k dflt = Inr (dict_get d k dflt)"
| "py_get v k dflt = Inl AttributeError"

text \<open>\<^verbatim>\<open>v.values()\<close>.\<close>

fun py_values :: "pyval \<Rightarrow> py_error + pyval list" where
  "py_values (PDict d) = Inr (map snd d)"
| "py_values v = Inl AttributeError"

text \<open>Truth value of a Python object, as \<^verbatim>\<open>if v:\<close> and \<^verbatim>\<open>not v\<close> take it.\<close>

fun py_truthy :: "pyval \<Rightarrow> bool" where
  "py_truthy PNone = False"
| "py_truthy (PBool b) = b"
| "py_truthy (PNum x) = (x \<noteq> 0)"
| "py_truthy (PStr s) = (s \<noteq> [])"
| "py_truthy (PList xs) = (xs \<noteq> [])"
| "py_truthy (PDict d) = (d \<noteq> [])"

text \<open>
  \<^verbatim>\<open>for i in v\<close>: a list yields its elements, a string its characters, a dict its
  keys; \<^verbatim>\<open>None\<close>, a bool and a number are not iterable.
\<close>

fun py_iter :: "pyval \<Rightarrow> py_error + pyval list" where
  "py_iter (PList xs) = Inr xs"
| "py_iter (PStr s) = Inr (map (\<lambda>c. PStr [c]) s)"
| "py_iter (PDict d) = Inr (map (\<lambda>kv. PStr (fst kv)) d)"
| "py_iter v = Inl TypeError"

text \<open>
  \<^verbatim>\<open>float(v)\<close>. A number converts to itself, a bool to 1.0 or 0.0; \<^verbatim>\<open>None\<close>, a list
  and a dict raise \<^verbatim>\<open>TypeError\<close>. A string is parsed by Python's numeric-literal
  reader, which is a parameter \<open>sf\<close> here: \<open>sf s = None\<close> when \<^verbatim>\<open>float(s)\<close> raises
  \<^verbatim>\<open>ValueError\<close>.
\<close>

fun py_float :: "(string \<Rightarrow> real option) \<Rightarrow> pyval \<Rightarrow> py_error + real" where
  "py_float sf PNone = Inl TypeError"
| "py_float sf (PBool b) = Inr (if b then 1 else 0)"
| "py_float sf (PNum x) = Inr x"
| "py_float sf (PStr s) = (case sf s of None \<Rightarrow> Inl ValueError | Some x \<Rightarrow> Inr x)"
| "py_float sf (PList xs) = Inl TypeError"
| "py_float sf (PDict d) = Inl TypeError"

text \<open>
  \<^verbatim>\<open>sum(f(x) for x in xs)\<close>: the accumulator starts at 0 and the first element on which
  \<open>f\<close> raises ends the loop with that exception.
\<close>

fun py_sum :: "(pyval \<Rightarrow> py_error + real) \<Rightarrow> pyval list \<Rightarrow> real \<Rightarrow> py_error + real" where
  "py_sum f [] acc = Inr acc"
| "py_sum f (x # xs) acc =
     (case f x of Inl e \<Rightarrow> Inl e | Inr v \<Rightarrow> py_sum f xs (acc + v))"

text \<open>
  \<^verbatim>\<open>s.lower()\<close> on the ASCII letters; every other character is left as it is.
\<close>

definition lower_chr :: "char \<Rightarrow> char" where
  "lower_chr c =
     (case map_of (zip ''ABCDEFGHIJKLMNOPQRSTUVWXYZ'' ''abcdefghijklmnopqrstuvwxyz'') c of
        None \<Rightarrow> c
      | Some l \<Rightarrow> l)"

definition py_lower :: "string \<Rightarrow> string" where
  "py_lower s = map lower_chr s"

text \<open>\<^verbatim>\<open>x in m\<close> for two strings: \<open>x\<close> occurs in \<open>m\<close> as a contiguous substring.\<close>

fun starts_with :: "string \<Rightarrow> string \<Rightarrow> bool" where
  "starts_with [] m = True"
| "starts_with (x # xs) [] = False"
| "starts_with (x # xs) (c # cs) = (x = c \<and> starts_with xs cs)"

fun py_in :: "string \<Rightarrow> string \<Rightarrow> bool" where
  "py_in x [] = (x = [])"
| "py_in x (c # cs) = (starts_with x (c # cs) \<or> py_in x cs)"

text \<open>\<^verbatim>\<open>any(x in m for x in keywords)\<close>.\<close>

definition any_in :: "string list \<Rightarrow> string \<Rightarrow> bool" where
  "any_in keywords m = list_ex (\<lambda>x. py_in x m) keywords"

section \<open>Category classifier\<close>

datatype category = Groceries | Medical | Restaurant | Travel | Utilities | Other

text \<open>\<^verbatim>\<open>classify_category\<close> of \<^verbatim>\<open>app1.py\<close>, on a string.\<close>

definition m1_classify_category :: "string \<Rightarrow> category" where
  "m1_classify_category merchant =
     (if merchant = [] then Other
      else let m = py_lower merchant in
        if any_in [''grocery'', ''mart'', ''supermarket'', ''basket''] m then Groceries
        else if any_in [''hospital'', ''medical'', ''pharmacy'', ''clinic''] m then Medical
        else if any_in [''hotel'', ''restaurant'', ''cafe'', ''food''] m then Restaurant
        else if any_in [''uber'', ''ola'', ''flight'', ''rail'', ''travel''] m then Travel
        else if any_in [''electricity'', ''water'', ''gas'', ''bill''] m then Utilities
        else Other)"

text \<open>\<^verbatim>\<open>classify_category\<close> of \<^verbatim>\<open>app2.py\<close>: the same chain over shorter keyword lists.\<close>

definition m2_classify_category :: "string \<Rightarrow> category" where
  "m2_classify_category merchant =
     (if merchant = [] then Other
      else let m = py_lower merchant in
        if any_in [''grocery'', ''mart'', ''supermarket''] m then Groceries
        else if any_in [''hospital'', ''medical'', ''pharmacy''] m then Medical
        else if any_in [''restaurant'', ''cafe'', ''food''] m then Restaurant
        else if any_in [''uber'', ''ola'', ''flight'', ''rail''] m then Travel
        else if any_in [''electricity'', ''water'', ''gas''] m then Utilities
        else Other)"

text \<open>
  The call sites pass \<^verbatim>\<open>data.get("merchant", "Unknown")\<close>, which may be any JSON value:
  a falsy one gives \<^verbatim>\<open>"Other"\<close> at \<^verbatim>\<open>if not merchant\<close>, a truthy one that is not a
  string has no \<^verbatim>\<open>lower\<close> method.
\<close>

definition classify_value :: "(string \<Rightarrow> category) \<Rightarrow> pyval \<Rightarrow> py_error + category" where
  "classify_value classify merchant =
     (if \<not> py_truthy merchant then Inr Other
      else case merchant of PStr s \<Rightarrow> Inr (classify s) | _ \<Rightarrow> Inl AttributeError)"



fun first_match :: "(category \<times> string list) list \<Rightarrow> string \<Rightarrow> category" where
  "first_match [] m = Other"
| "first_match ((c, kws) # rest) m = (if any_in kws m then c else first_match rest m)"

definition classify_spec :: "(category \<times> string list) list \<Rightarrow> string \<Rightarrow> category" where
  "classify_spec table merchant = first_match table (py_lower merchant)"


section \<open>Bill validation in the History tab\<close>

datatype verdict = PASSED | FAILED

text \<open>
  The last two statements of both History tabs:
  \<^verbatim>\<open>tolerance = max(2, 0.02 * bill_total)\<close> and the test
  \<^verbatim>\<open>abs(bill_total - calculated_total) <= tolerance\<close>.
\<close>

definition tolerance_of :: "real \<Rightarrow> real" where
  "tolerance_of bill_total = max 2 (0.02 * bill_total)"

definition validation_status :: "real \<Rightarrow> real \<Rightarrow> verdict" where
  "validation_status bill_total calculated_total =
     (if \<bar>bill_total - calculated_total\<bar> \<le> tolerance_of bill_total then PASSED else FAILED)"

subsection \<open>Milestone 1\<close>

text \<open>
  What the History tab of \<^verbatim>\<open>app1.py\<close> computes for the selected bill: the values it
  shows as metrics, the tax sum before the fallback, whether the ``tax inferred'' note was
  shown, and whether line items were found (otherwise the ``No line items extracted''
  warning is shown).
\<close>

record validation =
  v_subtotal :: real
  v_itemized_tax :: real
  v_total_tax :: real
  v_discount :: real
  v_calculated_total :: real
  v_tolerance :: real
  v_status :: verdict
  v_tax_inferred :: bool
  v_items_present :: bool

text \<open>\<^verbatim>\<open>float(i.get("price", 0))\<close> for one element of \<^verbatim>\<open>items\<close>.\<close>

definition m1_price :: "(string \<Rightarrow> real option) \<Rightarrow> pyval \<Rightarrow> py_error + real" where
  "m1_price sf i = bind_err (py_get i ''price'' (PNum 0)) (py_float sf)"

text \<open>\<^verbatim>\<open>float(taxes.get(k, 0))\<close>.\<close>

definition m1_tax :: "(string \<Rightarrow> real option) \<Rightarrow> pyval \<Rightarrow> string \<Rightarrow> py_error + real" where
  "m1_tax sf taxes k = bind_err (py_get taxes k (PNum 0)) (py_float sf)"

text \<open>
  The fallback tax inference: the new value of \<^verbatim>\<open>total_tax\<close> and whether the note was
  shown.
\<close>

definition m1_infer_tax :: "real \<Rightarrow> real \<Rightarrow> real \<Rightarrow> real \<times> bool" where
  "m1_infer_tax bill_total subtotal total_tax =
     (if total_tax = 0 \<and> subtotal > 0 then
        (let inferred_tax = bill_total - subtotal in
         if inferred_tax > 0 then (inferred_tax, True) else (total_tax, False))
      else (total_tax, False))"

text \<open>
  The validation of one bill, from the stored \<^verbatim>\<open>total\<close> and the decoded
  \<^verbatim>\<open>raw_json\<close>. The statements run in the order of the script, so the first one that
  raises decides the exception. Calls that only draw (\<^verbatim>\<open>st.table\<close>, \<^verbatim>\<open>st.metric\<close>,
  \<^verbatim>\<open>pd.DataFrame\<close>) are left out.
\<close>

definition m1_history ::
  "(string \<Rightarrow> real option) \<Rightarrow> real \<Rightarrow> pydict \<Rightarrow> py_error + validation" where
  "m1_history sf bill_total raw =
     (let items = dict_get raw ''items'' (PList []) in
      bind_err (if py_truthy items
                then bind_err (py_iter items) (\<lambda>xs. py_sum (m1_price sf) xs 0)
                else Inr 0) (\<lambda>subtotal.
      let taxes = dict_get raw ''taxes'' (PDict []) in
      bind_err (m1_tax sf taxes ''gst'') (\<lambda>gst.
      bind_err (m1_tax sf taxes ''cgst'') (\<lambda>cgst.
      bind_err (m1_tax sf taxes ''sgst'') (\<lambda>sgst.
      bind_err (m1_tax sf taxes ''igst'') (\<lambda>igst.
      bind_err (m1_tax sf taxes ''other'') (\<lambda>other.
      let itemized = gst + cgst + sgst + igst + other;
          inferred = m1_infer_tax bill_total subtotal itemized;
          total_tax = fst inferred in
      bind_err (py_float sf (dict_get raw ''discount'' (PNum 0))) (\<lambda>discount.
      let calculated_total = subtotal + total_tax - discount in
      Inr \<lparr>v_subtotal = subtotal,
           v_itemized_tax = itemized,
           v_total_tax = total_tax,
           v_discount = discount,
           v_calculated_total = calculated_total,
           v_tolerance = tolerance_of bill_total,
           v_status = validation_status bill_total calculated_total,
           v_tax_inferred = snd inferred,
           v_items_present = py_truthy items\<rparr>))))))))"

subsection \<open>Milestone 2\<close>

text \<open>\<^verbatim>\<open>safe_float\<close>: \<^verbatim>\<open>float(val)\<close>, and 0.0 when that raises.\<close>

definition safe_float :: "(string \<Rightarrow> real option) \<Rightarrow> pyval \<Rightarrow> real" where
  "safe_float sf val = (case py_float sf val of Inl e \<Rightarrow> 0 | Inr x \<Rightarrow> x)"

text \<open>
  \<^verbatim>\<open>safe_float(i.get("price"))\<close>: the argument is evaluated before the call, outside its
  \<^verbatim>\<open>try\<close>.
\<close>

definition m2_price :: "(string \<Rightarrow> real option) \<Rightarrow> pyval \<Rightarrow> py_error + real" where
  "m2_price sf i = bind_err (py_get i ''price'' PNone) (\<lambda>v. Inr (safe_float sf v))"

text \<open>
  The row that the History tab of \<^verbatim>\<open>app2.py\<close> computes and writes to
  \<^verbatim>\<open>bill_validation\<close> (total, calculated total, status), with the intermediate sums.
\<close>

record validation2 =
  w_bill_total :: real
  w_subtotal :: real
  w_total_tax :: real
  w_discount :: real
  w_calculated_total :: real
  w_tolerance :: real
  w_status :: verdict

definition m2_history ::
  "(string \<Rightarrow> real option) \<Rightarrow> pyval \<Rightarrow> pydict \<Rightarrow> py_error + validation2" where
  "m2_history sf db_total raw =
     (let bill_total = safe_float sf db_total;
          items = dict_get raw ''items'' (PList []) in
      bind_err (bind_err (py_iter items) (\<lambda>xs. py_sum (m2_price sf) xs 0)) (\<lambda>subtotal.
      let taxes = dict_get raw ''taxes'' (PDict []) in
      bind_err (bind_err (py_values taxes)
                  (\<lambda>vs. py_sum (\<lambda>v. Inr (safe_float sf v)) vs 0)) (\<lambda>total_tax.
      let discount = safe_float sf (dict_get raw ''discount'' PNone);
          calculated_total = subtotal + total_tax - discount in
      Inr \<lparr>w_bill_total = bill_total,
           w_subtotal = subtotal,
           w_total_tax = total_tax,
           w_discount = discount,
           w_calculated_total = calculated_total,
           w_tolerance = tolerance_of bill_total,
           w_status = validation_status bill_total calculated_total\<rparr>)))"

subsection \<open>Payloads in the format the extraction prompt asks for\<close>

text \<open>
  The prompt of \<^verbatim>\<open>analyze_receipt\<close> asks for \<^verbatim>\<open>items\<close> as a list of
  \<^verbatim>\<open>{"name": ..., "price": number}\<close>, \<^verbatim>\<open>taxes\<close> as an object with the five numeric
  fields gst, cgst, sgst, igst, other, and a numeric \<^verbatim>\<open>discount\<close>. These functions
  build such a payload from its numbers.
\<close>

definition item_of :: "string \<times> real \<Rightarrow> pyval" where
  "item_of it = PDict [(''name'', PStr (fst it)), (''price'', PNum (snd it))]"

definition taxes_of :: "real \<Rightarrow> real \<Rightarrow> real \<Rightarrow> real \<Rightarrow> real \<Rightarrow> pyval" where
  "taxes_of gst cgst sgst igst other =
     PDict [(''gst'', PNum gst), (''cgst'', PNum cgst), (''sgst'', PNum sgst),
            (''igst'', PNum igst), (''other'', PNum other)]"

definition payload_of :: "(string \<times> real) list \<Rightarrow> pyval \<Rightarrow> real \<Rightarrow> pydict" where
  "payload_of items taxes discount =
     [(''items'', PList (map item_of items)), (''taxes'', taxes),
      (''discount'', PNum discount)]"

section \<open>Extraction and the Upload tab\<close>

subsection \<open>Locating the JSON object in the model's answer\<close>

text \<open>
  \<^verbatim>\<open>text.index(c)\<close> and \<^verbatim>\<open>text.rindex(c)\<close>: the first and the last position of
  \<open>c\<close>, \<open>None\<close> where Python raises \<^verbatim>\<open>ValueError\<close>. \<^verbatim>\<open>text[a:b]\<close> is empty when
  \<open>b \<le> a\<close>.
\<close>

fun py_index :: "string \<Rightarrow> char \<Rightarrow> nat option" where
  "py_index [] c = None"
| "py_index (x # xs) c = (if x = c then Some 0 else map_option Suc (py_index xs c))"

definition py_rindex :: "string \<Rightarrow> char \<Rightarrow> nat option" where
  "py_rindex text c = map_option (\<lambda>i. length text - 1 - i) (py_index (rev text) c)"

definition py_slice :: "string \<Rightarrow> nat \<Rightarrow> nat \<Rightarrow> string" where
  "py_slice text a b = take (b - a) (drop a text)"

text \<open>
  \<^verbatim>\<open>safe_json\<close> of \<^verbatim>\<open>app1.py\<close>. \<^verbatim>\<open>json.loads\<close> is the parameter \<open>loads\<close>, with
  \<open>None\<close> where it raises; its argument starts with an opening brace, so what it returns
  is a dict. The bare \<^verbatim>\<open>except\<close> turns every exception into \<^verbatim>\<open>None\<close>.
\<close>

definition m1_safe_json :: "(string \<Rightarrow> pydict option) \<Rightarrow> string \<Rightarrow> pydict option" where
  "m1_safe_json loads text =
     (case py_index text CHR ''{'' of
        None \<Rightarrow> None
      | Some start \<Rightarrow>
          (case py_rindex text CHR ''}'' of
             None \<Rightarrow> None
           | Some e \<Rightarrow> loads (py_slice text start (e + 1))))"

text \<open>\<^verbatim>\<open>safe_json\<close> of \<^verbatim>\<open>app2.py\<close>: the same search, and \<^verbatim>\<open>{}\<close> on any exception.\<close>

definition m2_safe_json :: "(string \<Rightarrow> pydict option) \<Rightarrow> string \<Rightarrow> pydict" where
  "m2_safe_json loads text =
     (case py_index text CHR ''{'' of
        None \<Rightarrow> []
      | Some start \<Rightarrow>
          (case py_rindex text CHR ''}'' of
             None \<Rightarrow> []
           | Some e \<Rightarrow>
               (case loads (py_slice text start (e + 1)) of None \<Rightarrow> [] | Some d \<Rightarrow> d)))"

text \<open>
  \<^verbatim>\<open>analyze_receipt\<close>. The call of the extraction model is its outcome here: the text of
  the response, or \<open>None\<close> when \<^verbatim>\<open>generate_content\<close> raises.
\<close>

definition m1_analyze_receipt ::
  "(string \<Rightarrow> pydict option) \<Rightarrow> string option \<Rightarrow> pydict option" where
  "m1_analyze_receipt loads response =
     (case response of None \<Rightarrow> None | Some text \<Rightarrow> m1_safe_json loads text)"

definition m2_analyze_receipt ::
  "(string \<Rightarrow> pydict option) \<Rightarrow> string option \<Rightarrow> pydict" where
  "m2_analyze_receipt loads response =
     (case response of None \<Rightarrow> [] | Some text \<Rightarrow> m2_safe_json loads text)"

text \<open>
  The part of the answer that the specification calls the substring between the first
  opening and the last closing brace, written without positions.
\<close>

definition between_braces :: "string \<Rightarrow> string" where
  "between_braces text =
     dropWhile (\<lambda>x. x \<noteq> CHR ''{'') (rev (dropWhile (\<lambda>x. x \<noteq> CHR ''}'') (rev text)))"

definition no_recoverable_json :: "(string \<Rightarrow> pydict option) \<Rightarrow> string \<Rightarrow> bool" where
  "no_recoverable_json loads text \<longleftrightarrow>
     CHR ''{'' \<notin> set text \<or> CHR ''}'' \<notin> set text \<or> loads (between_braces text) = None"

subsection \<open>The receipts table\<close>

text \<open>
  A row of \<^verbatim>\<open>receipts\<close>. \<^verbatim>\<open>raw_json\<close> holds \<^verbatim>\<open>json.dumps(data)\<close> and is read back
  with \<^verbatim>\<open>json.loads\<close>; the row keeps the dict itself. The database is the list of rows
  in insertion order and the counter behind \<^verbatim>\<open>AUTOINCREMENT\<close>.
\<close>

record receipt =
  r_id :: nat
  r_merchant :: pyval
  r_date :: pyval
  r_total :: real
  r_currency :: pyval
  r_category :: category
  r_raw_json :: pydict
  r_file_hash :: string

record db =
  receipts :: "receipt list"
  last_id :: nat

definition has_hash :: "db \<Rightarrow> string \<Rightarrow> bool" where
  "has_hash d h = list_ex (\<lambda>r. r_file_hash r = h) (receipts d)"

text \<open>
  SQLite binds \<^verbatim>\<open>None\<close>, numbers (a bool is an int) and strings as parameters; a list or
  a dict raises a binding error.
\<close>

fun sql_bindable :: "pyval \<Rightarrow> bool" where
  "sql_bindable (PList xs) = False"
| "sql_bindable (PDict d) = False"
| "sql_bindable v = True"

text \<open>
  \<^verbatim>\<open>INSERT INTO receipts (merchant, date, total, currency, category, raw_json,
  file_hash)\<close> followed by \<^verbatim>\<open>commit\<close>. The column \<^verbatim>\<open>file_hash\<close> is declared
  \<^verbatim>\<open>UNIQUE\<close>: inserting a hash that is already there raises \<^verbatim>\<open>IntegrityError\<close> and
  leaves the table as it was.
\<close>

definition insert_receipt ::
  "db \<Rightarrow> pyval \<Rightarrow> pyval \<Rightarrow> real \<Rightarrow> pyval \<Rightarrow> category \<Rightarrow> pydict \<Rightarrow> string \<Rightarrow> py_error + db" where
  "insert_receipt d merchant date tot currency cat data file_hash =
     (if \<not> (sql_bindable merchant \<and> sql_bindable date \<and> sql_bindable currency)
      then Inl BindingError
      else if has_hash d file_hash then Inl IntegrityError
      else Inr \<lparr>receipts = receipts d @
                  [\<lparr>r_id = Suc (last_id d), r_merchant = merchant, r_date = date,
                    r_total = tot, r_currency = currency, r_category = cat,
                    r_raw_json = data, r_file_hash = file_hash\<rparr>],
                last_id = Suc (last_id d)\<rparr>)"

subsection \<open>One run of the Upload tab\<close>

text \<open>
  The input of one run with a file in the uploader: the MD5 hex digest of its bytes,
  whether the image (or the first PDF page) can be opened, whether ``Analyze and Save''
  was pressed, and the outcome of the extraction call.
\<close>

record upload =
  u_file_hash :: string
  u_image_ok :: bool
  u_pressed :: bool
  u_response :: "string option"

datatype outcome = DuplicateFile | Preview | ExtractionFailed | Saved | Raised py_error

text \<open>
  Milestone 1 coerces the total and the date before it stores them:
  \<^verbatim>\<open>float(data.get("total", 0))\<close>, 0.0 on any exception, and
  \<^verbatim>\<open>datetime.fromisoformat(data.get("date")).date().isoformat()\<close>, \<^verbatim>\<open>None\<close> on any
  exception. The parameter \<open>isodate\<close> is that parse and reprint on a string, \<open>None\<close> where
  \<^verbatim>\<open>fromisoformat\<close> raises \<^verbatim>\<open>ValueError\<close>; a value that is not a string raises
  \<^verbatim>\<open>TypeError\<close>.
\<close>

definition m1_coerce_total :: "(string \<Rightarrow> real option) \<Rightarrow> pydict \<Rightarrow> real" where
  "m1_coerce_total sf data =
     (case py_float sf (dict_get data ''total'' (PNum 0)) of Inl e \<Rightarrow> 0 | Inr x \<Rightarrow> x)"

definition m1_coerce_date :: "(string \<Rightarrow> string option) \<Rightarrow> pydict \<Rightarrow> pyval" where
  "m1_coerce_date isodate data =
     (case dict_get data ''date'' PNone of
        PStr s \<Rightarrow> (case isodate s of None \<Rightarrow> PNone | Some d \<Rightarrow> PStr d)
      | _ \<Rightarrow> PNone)"

text \<open>The body of the ``Analyze and Save'' button once \<^verbatim>\<open>data\<close> is there.\<close>

definition m1_save ::
  "(string \<Rightarrow> real option) \<Rightarrow> (string \<Rightarrow> string option) \<Rightarrow> db \<Rightarrow> string \<Rightarrow> pydict option
     \<Rightarrow> outcome \<times> db" where
  "m1_save sf isodate d file_hash result =
     (case result of
        None \<Rightarrow> (ExtractionFailed, d)
      | Some data \<Rightarrow>
          if data = [] then (ExtractionFailed, d)
          else
            let tot = m1_coerce_total sf data;
                date = m1_coerce_date isodate data;
                merchant = dict_get data ''merchant'' (PStr ''Unknown'')
            in (case classify_value m1_classify_category merchant of
                  Inl e \<Rightarrow> (Raised e, d)
                | Inr cat \<Rightarrow>
                    (case insert_receipt d merchant date tot
                            (dict_get data ''currency'' (PStr [])) cat data file_hash of
                       Inl e \<Rightarrow> (Raised e, d)
                     | Inr d' \<Rightarrow> (Saved, d'))))"

definition m2_save :: "(string \<Rightarrow> real option) \<Rightarrow> db \<Rightarrow> string \<Rightarrow> pydict \<Rightarrow> outcome \<times> db" where
  "m2_save sf d file_hash data =
     (let merchant = dict_get data ''merchant'' (PStr ''Unknown'')
      in (case classify_value m2_classify_category merchant of
            Inl e \<Rightarrow> (Raised e, d)
          | Inr cat \<Rightarrow>
              (case insert_receipt d merchant (dict_get data ''date'' PNone)
                      (safe_float sf (dict_get data ''total'' PNone))
                      (dict_get data ''currency'' (PStr [])) cat data file_hash of
                 Inl e \<Rightarrow> (Raised e, d)
               | Inr d' \<Rightarrow> (Saved, d'))))"

text \<open>
  The Upload tab from the top: the duplicate check stops the run, then the image is
  opened and shown, and the button runs the extraction and the insert.
\<close>

definition m1_upload ::
  "(string \<Rightarrow> pydict option) \<Rightarrow> (string \<Rightarrow> real option) \<Rightarrow> (string \<Rightarrow> string option)
     \<Rightarrow> db \<Rightarrow> upload \<Rightarrow> outcome \<times> db" where
  "m1_upload loads sf isodate d u =
     (if has_hash d (u_file_hash u) then (DuplicateFile, d)
      else if \<not> u_image_ok u then (Raised ImageError, d)
      else if \<not> u_pressed u then (Preview, d)
      else m1_save sf isodate d (u_file_hash u) (m1_analyze_receipt loads (u_response u)))"

definition m2_upload ::
  "(string \<Rightarrow> pydict option) \<Rightarrow> (string \<Rightarrow> real option) \<Rightarrow> db \<Rightarrow> upload \<Rightarrow> outcome \<times> db" where
  "m2_upload loads sf d u =
     (if has_hash d (u_file_hash u) then (DuplicateFile, d)
      else if \<not> u_image_ok u then (Raised ImageError, d)
      else if \<not> u_pressed u then (Preview, d)
      else m2_save sf d (u_file_hash u) (m2_analyze_receipt loads (u_response u)))"

text \<open>A sequence of runs, each on the database the previous one left.\<close>

definition m1_uploads ::
  "(string \<Rightarrow> pydict option) \<Rightarrow> (string \<Rightarrow> real option) \<Rightarrow> (string \<Rightarrow> string option)
     \<Rightarrow> db \<Rightarrow> upload list \<Rightarrow> db" where
  "m1_uploads loads sf isodate d us = foldl (\<lambda>d' u. snd (m1_upload loads sf isodate d' u)) d us"

definition m2_uploads ::
  "(string \<Rightarrow> pydict option) \<Rightarrow> (string \<Rightarrow> real option) \<Rightarrow> db \<Rightarrow> upload list \<Rightarrow> db" where
  "m2_uploads loads sf d us = foldl (\<lambda>d' u. snd (m2_upload loads sf d' u)) d us"



section \<open>Properties of the classifier\<close>

lemma starts_with_iff: "starts_with x m \<longleftrightarrow> (\<exists>ss. m = x @ ss)"
  by (induction x m rule: starts_with.induct) auto

text \<open>\<open>py_in\<close> is the substring relation.\<close>

lemma py_in_iff: "py_in x m \<longleftrightarrow> (\<exists>ps ss. m = ps @ x @ ss)"
proof (induction m)
  case Nil
  then show ?case by auto
next
  case (Cons c cs)
  show ?case
  proof
    assume "py_in x (c # cs)"
    then consider "starts_with x (c # cs)" | "py_in x cs" by auto
    then show "\<exists>ps ss. c # cs = ps @ x @ ss"
    proof cases
      case 1
      then obtain ss where "c # cs = x @ ss" using starts_with_iff by blast
      then have "c # cs = [] @ x @ ss" by simp
      then show ?thesis by blast
    next
      case 2
      then obtain ps ss where "cs = ps @ x @ ss" using Cons.IH by blast
      then have "c # cs = (c # ps) @ x @ ss" by simp
      then show ?thesis by blast
    qed
  next
    assume "\<exists>ps ss. c # cs = ps @ x @ ss"
    then obtain ps ss where e: "c # cs = ps @ x @ ss" by blast
    show "py_in x (c # cs)"
    proof (cases ps)
      case Nil
      then have "starts_with x (c # cs)" using e starts_with_iff by auto
      then show ?thesis by simp
    next
      case (Cons p ps')
      then have "cs = ps' @ x @ ss" using e by simp
      then have "py_in x cs" using Cons.IH by blast
      then show ?thesis by simp
    qed
  qed
qed








lemma classify_spec_lower:
  "py_lower s = py_lower t \<Longrightarrow> classify_spec table s = classify_spec table t"
  by (simp add: classify_spec_def)



section \<open>Properties of the bill validation\<close>

subsection \<open>The validation of a payload in the prompt's format\<close>

lemma py_sum_m1_prices:
  "py_sum (m1_price sf) (map item_of items) acc = Inr (acc + sum_list (map snd items))"
  by (induction items arbitrary: acc)
     (simp_all add: m1_price_def item_of_def bind_err_def dict_get_def)

lemma py_sum_m2_prices:
  "py_sum (m2_price sf) (map item_of items) acc = Inr (acc + sum_list (map snd items))"
  by (induction items arbitrary: acc)
     (simp_all add: m2_price_def item_of_def bind_err_def dict_get_def safe_float_def)

lemma m1_history_normalized:
  "m1_history sf c (payload_of items (taxes_of g cg sg ig ot) d) =
     (let subtotal = sum_list (map snd items);
          itemized = g + cg + sg + ig + ot;
          inferred = m1_infer_tax c subtotal itemized;
          calculated_total = subtotal + fst inferred - d in
      Inr \<lparr>v_subtotal = subtotal, v_itemized_tax = itemized, v_total_tax = fst inferred,
           v_discount = d, v_calculated_total = calculated_total,
           v_tolerance = tolerance_of c,
           v_status = validation_status c calculated_total,
           v_tax_inferred = snd inferred,
           v_items_present = (items \<noteq> [])\<rparr>)"
proof -
  have s: "(if py_truthy (PList (map item_of items))
            then bind_err (py_iter (PList (map item_of items))) (\<lambda>xs. py_sum (m1_price sf) xs 0)
            else Inr 0) = Inr (sum_list (map snd items))"
    by (auto simp: bind_err_def py_sum_m1_prices)
  have i: "dict_get (payload_of items (taxes_of g cg sg ig ot) d) ''items'' (PList []) = PList (map item_of items)"
    by (simp add: payload_of_def dict_get_def)
  have t: "dict_get (payload_of items (taxes_of g cg sg ig ot) d) ''taxes'' (PDict []) = taxes_of g cg sg ig ot"
    by (simp add: payload_of_def dict_get_def)
  have dd: "dict_get (payload_of items (taxes_of g cg sg ig ot) d) ''discount'' (PNum 0) = PNum d"
    by (simp add: payload_of_def dict_get_def)
  have tx: "m1_tax sf (taxes_of g cg sg ig ot) ''gst'' = Inr g"
     "m1_tax sf (taxes_of g cg sg ig ot) ''cgst'' = Inr cg"
     "m1_tax sf (taxes_of g cg sg ig ot) ''sgst'' = Inr sg"
     "m1_tax sf (taxes_of g cg sg ig ot) ''igst'' = Inr ig"
     "m1_tax sf (taxes_of g cg sg ig ot) ''other'' = Inr ot"
    by (simp_all add: m1_tax_def taxes_of_def bind_err_def dict_get_def)
  show ?thesis
    unfolding m1_history_def Let_def i t dd s tx
    by (simp add: bind_err_def)
qed

lemma m2_history_normalized:
  "m2_history sf (PNum c) (payload_of items (taxes_of g cg sg ig ot) d) =
     (let subtotal = sum_list (map snd items);
          total_tax = g + cg + sg + ig + ot;
          calculated_total = subtotal + total_tax - d in
      Inr \<lparr>w_bill_total = c, w_subtotal = subtotal, w_total_tax = total_tax,
           w_discount = d, w_calculated_total = calculated_total,
           w_tolerance = tolerance_of c,
           w_status = validation_status c calculated_total\<rparr>)"
proof -
  have i: "dict_get (payload_of items (taxes_of g cg sg ig ot) d) ''items'' (PList []) = PList (map item_of items)"
    by (simp add: payload_of_def dict_get_def)
  have t: "dict_get (payload_of items (taxes_of g cg sg ig ot) d) ''taxes'' (PDict []) = taxes_of g cg sg ig ot"
    by (simp add: payload_of_def dict_get_def)
  have dd: "dict_get (payload_of items (taxes_of g cg sg ig ot) d) ''discount'' PNone = PNum d"
    by (simp add: payload_of_def dict_get_def)
  have s: "bind_err (py_iter (PList (map item_of items))) (\<lambda>xs. py_sum (m2_price sf) xs 0)
      = Inr (sum_list (map snd items))"
    by (simp add: bind_err_def py_sum_m2_prices)
  have tx: "bind_err (py_values (taxes_of g cg sg ig ot)) (\<lambda>vs. py_sum (\<lambda>v. Inr (safe_float sf v)) vs 0)
      = Inr (g + cg + sg + ig + ot)"
    by (simp add: taxes_of_def bind_err_def safe_float_def)
  show ?thesis
    unfolding m2_history_def Let_def i t dd s tx
    by (simp add: bind_err_def safe_float_def)
qed






subsection \<open>Claim C1\<close>



subsection \<open>Claim C2\<close>





subsection \<open>Claim C6\<close>




subsection \<open>Claim C9\<close>

text \<open>
  Claim C9. For a claimed total of 100 the tolerance is max(2, 0.02 * 100) = 2; a
  calculated total of exactly 98 is PASSED (the bound is inclusive) and one of 97.99 is
  FAILED. Both History tabs behave so on a bill of one item of 90 with gst 8 and with
  gst 7.99.
\<close>

theorem tolerance_boundary_at_100:
  "tolerance_of 100 = 2
   \<and> validation_status 100 98 = PASSED
   \<and> validation_status 100 97.99 = FAILED
   \<and> m1_history sf 100 (payload_of [(''item'', 90)] (taxes_of 8 0 0 0 0) 0) =
       Inr \<lparr>v_subtotal = 90, v_itemized_tax = 8, v_total_tax = 8, v_discount = 0,
            v_calculated_total = 98, v_tolerance = 2, v_status = PASSED,
            v_tax_inferred = False, v_items_present = True\<rparr>
   \<and> m1_history sf 100 (payload_of [(''item'', 90)] (taxes_of 7.99 0 0 0 0) 0) =
       Inr \<lparr>v_subtotal = 90, v_itemized_tax = 7.99, v_total_tax = 7.99, v_discount = 0,
            v_calculated_total = 97.99, v_tolerance = 2, v_status = FAILED,
            v_tax_inferred = False, v_items_present = True\<rparr>
   \<and> m2_history sf (PNum 100) (payload_of [(''item'', 90)] (taxes_of 8 0 0 0 0) 0) =
       Inr \<lparr>w_bill_total = 100, w_subtotal = 90, w_total_tax = 8, w_discount = 0,
            w_calculated_total = 98, w_tolerance = 2, w_status = PASSED\<rparr>
   \<and> m2_history sf (PNum 100) (payload_of [(''item'', 90)] (taxes_of 7.99 0 0 0 0) 0) =
       Inr \<lparr>w_bill_total = 100, w_subtotal = 90, w_total_tax = 7.99, w_discount = 0,
            w_calculated_total = 97.99, w_tolerance = 2, w_status = FAILED\<rparr>"
  by (simp add: m1_history_normalized m2_history_normalized m1_infer_tax_def
      tolerance_of_def validation_status_def Let_def)

subsection \<open>Claim C10\<close>



section \<open>Properties of the extraction and the Upload tab\<close>

subsection \<open>Searching the braces\<close>

lemma py_index_eq:
  "py_index s c =
     (if c \<in> set s then Some (length (takeWhile (\<lambda>x. x \<noteq> c) s)) else None)"
  by (induction s) auto

lemma py_rindex_eq:
  "py_rindex s c =
     (if c \<in> set s
      then Some (length s - 1 - length (takeWhile (\<lambda>x. x \<noteq> c) (rev s)))
      else None)"
  by (simp add: py_rindex_def py_index_eq)

lemma length_takeWhile_neq_less:
  "c \<in> set xs \<Longrightarrow> length (takeWhile (\<lambda>x. x \<noteq> c) xs) < length xs"
  by (induction xs) auto

lemma take_rev_dropWhile:
  "take (length s - length (takeWhile Q (rev s))) s = rev (dropWhile Q (rev s))"
proof -
  have "rev s = takeWhile Q (rev s) @ dropWhile Q (rev s)" by simp
  then have "rev (rev s) = rev (takeWhile Q (rev s) @ dropWhile Q (rev s))"
    by (rule arg_cong)
  then have e: "s = rev (dropWhile Q (rev s)) @ rev (takeWhile Q (rev s))"
    by (simp only: rev_rev_ident rev_append)
  have "length s = length (rev (dropWhile Q (rev s)) @ rev (takeWhile Q (rev s)))"
    using e by (rule arg_cong)
  then have l: "length s - length (takeWhile Q (rev s)) = length (rev (dropWhile Q (rev s)))"
    by simp
  have "take (length (rev (dropWhile Q (rev s))))
          (rev (dropWhile Q (rev s)) @ rev (takeWhile Q (rev s)))
        = rev (dropWhile Q (rev s))"
    by simp
  then have "take (length (rev (dropWhile Q (rev s)))) s = rev (dropWhile Q (rev s))"
    using e by simp
  with l show ?thesis by simp
qed

lemma drop_takeWhile_prefix:
  "drop (length (takeWhile P (ts @ rs))) ts = dropWhile P ts"
proof (cases "\<forall>x\<in>set ts. P x")
  case True
  then have "takeWhile P (ts @ rs) = ts @ takeWhile P rs"
    by (simp add: takeWhile_append2)
  then have l: "drop (length (takeWhile P (ts @ rs))) ts = []"
    by simp
  from True have "dropWhile P ts = []"
    by (simp add: dropWhile_eq_Nil_conv)
  with l show ?thesis by (simp only:)
next
  case False
  then obtain x where "x \<in> set ts" "\<not> P x" by blast
  then have "takeWhile P (ts @ rs) = takeWhile P ts"
    by (rule takeWhile_append1)
  then show ?thesis by (simp add: dropWhile_eq_drop)
qed

text \<open>
  The slice that \<^verbatim>\<open>safe_json\<close> hands to the parser is the part of the answer from its
  first \<open>c1\<close> to its last \<open>c2\<close>, and is empty when the last \<open>c2\<close> comes first.
\<close>

lemma py_slice_index_rindex:
  assumes "py_index s c1 = Some a" and "py_rindex s c2 = Some b"
  shows "py_slice s a (b + 1)
         = dropWhile (\<lambda>x. x \<noteq> c1) (rev (dropWhile (\<lambda>x. x \<noteq> c2) (rev s)))"
proof -
  let ?P = "\<lambda>x. x \<noteq> c1" and ?Q = "\<lambda>x. x \<noteq> c2"
  let ?k = "length (takeWhile ?Q (rev s))"
  let ?T = "rev (dropWhile ?Q (rev s))"
  have a: "a = length (takeWhile ?P s)"
    using assms(1) by (simp add: py_index_eq split: if_splits)
  have c2: "c2 \<in> set s" and b0: "b = length s - 1 - ?k"
    using assms(2) by (simp_all add: py_rindex_eq split: if_splits)
  have "?k < length (rev s)"
    using c2 by (intro length_takeWhile_neq_less) simp
  then have b: "b + 1 = length s - ?k"
    using b0 by simp
  have t: "take (length s - ?k) s = ?T"
    by (rule take_rev_dropWhile)
  have "s = take (length s - ?k) s @ drop (length s - ?k) s"
    by simp
  then have e: "s = ?T @ drop (length s - ?k) s"
    using t by simp
  have "py_slice s a (b + 1) = drop a (take (length s - ?k) s)"
    unfolding py_slice_def b by (simp add: drop_take)
  also have "\<dots> = drop (length (takeWhile ?P s)) ?T"
    using t a by simp
  also have "\<dots> = drop (length (takeWhile ?P (?T @ drop (length s - ?k) s))) ?T"
    using e by simp
  also have "\<dots> = dropWhile ?P ?T"
    by (rule drop_takeWhile_prefix)
  finally show ?thesis .
qed

lemma m1_safe_json_eq:
  "m1_safe_json loads s =
     (if CHR ''{'' \<in> set s \<and> CHR ''}'' \<in> set s then loads (between_braces s)
      else None)"
proof (cases "py_index s CHR ''{''")
  case None
  then show ?thesis
    by (simp add: m1_safe_json_def py_index_eq split: if_splits)
next
  case a: (Some a)
  show ?thesis
  proof (cases "py_rindex s CHR ''}''")
    case None
    then show ?thesis
      using a by (simp add: m1_safe_json_def py_rindex_eq split: if_splits)
  next
    case (Some b)
    have "CHR ''{'' \<in> set s" "CHR ''}'' \<in> set s"
      using a Some by (simp_all add: py_index_eq py_rindex_eq split: if_splits)
    then show ?thesis
      using a Some py_slice_index_rindex [OF a Some]
      by (simp add: m1_safe_json_def between_braces_def)
  qed
qed

lemma m2_safe_json_eq:
  "m2_safe_json loads s = (case m1_safe_json loads s of None \<Rightarrow> [] | Some d \<Rightarrow> d)"
  by (simp add: m1_safe_json_def m2_safe_json_def split: option.splits)

lemma m1_safe_json_None_iff:
  "m1_safe_json loads s = None \<longleftrightarrow> no_recoverable_json loads s"
  by (auto simp: m1_safe_json_eq no_recoverable_json_def)

lemma m2_safe_json_failed:
  "no_recoverable_json loads s \<Longrightarrow> m2_safe_json loads s = []"
  by (simp add: m2_safe_json_eq m1_safe_json_None_iff [symmetric])

subsection \<open>The insert and the duplicate check\<close>

lemma has_hash_iff: "has_hash d h \<longleftrightarrow> h \<in> set (map r_file_hash (receipts d))"
  by (auto simp: has_hash_def list_ex_iff)

lemma insert_receipt_Inr:
  assumes "insert_receipt d merchant date tot currency cat data h = Inr d'"
  shows "receipts d' = receipts d @
           [\<lparr>r_id = Suc (last_id d), r_merchant = merchant, r_date = date, r_total = tot,
             r_currency = currency, r_category = cat, r_raw_json = data, r_file_hash = h\<rparr>]"
    and "\<not> has_hash d h"
    and "last_id d' = Suc (last_id d)"
  using assms by (auto simp: insert_receipt_def split: if_splits)

lemma insert_receipt_distinct:
  assumes "insert_receipt d merchant date tot currency cat data h = Inr d'"
    and "distinct (map r_file_hash (receipts d))"
  shows "distinct (map r_file_hash (receipts d'))"
  using insert_receipt_Inr(1,2) [OF assms(1)] assms(2)
  by (simp add: has_hash_iff)

lemma m1_save_distinct:
  assumes "distinct (map r_file_hash (receipts d))"
  shows "distinct (map r_file_hash (receipts (snd (m1_save sf isodate d h result))))"
  using assms
  by (auto simp: m1_save_def Let_def split: option.splits sum.splits
      dest: insert_receipt_distinct)

lemma m2_save_distinct:
  assumes "distinct (map r_file_hash (receipts d))"
  shows "distinct (map r_file_hash (receipts (snd (m2_save sf d h data))))"
  using assms
  by (auto simp: m2_save_def Let_def split: sum.splits dest: insert_receipt_distinct)

lemma m1_upload_distinct:
  "distinct (map r_file_hash (receipts d)) \<Longrightarrow>
   distinct (map r_file_hash (receipts (snd (m1_upload loads sf isodate d u))))"
  by (simp add: m1_upload_def m1_save_distinct)

lemma m2_upload_distinct:
  "distinct (map r_file_hash (receipts d)) \<Longrightarrow>
   distinct (map r_file_hash (receipts (snd (m2_upload loads sf d u))))"
  by (simp add: m2_upload_def m2_save_distinct)

lemma m1_uploads_distinct:
  "distinct (map r_file_hash (receipts d)) \<Longrightarrow>
   distinct (map r_file_hash (receipts (m1_uploads loads sf isodate d us)))"
  unfolding m1_uploads_def
  by (induction us arbitrary: d) (simp_all add: m1_upload_distinct)

lemma m2_uploads_distinct:
  "distinct (map r_file_hash (receipts d)) \<Longrightarrow>
   distinct (map r_file_hash (receipts (m2_uploads loads sf d us)))"
  unfolding m2_uploads_def
  by (induction us arbitrary: d) (simp_all add: m2_upload_distinct)

lemma distinct_at_most_one:
  "distinct (map f xs) \<Longrightarrow> length (filter (\<lambda>x. f x = h) xs) \<le> 1"
proof (induction xs)
  case Nil
  then show ?case by simp
next
  case (Cons x xs)
  show ?case
  proof (cases "f x = h")
    case True
    then have "h \<notin> f ` set xs" using Cons.prems by auto
    then have "filter (\<lambda>x. f x = h) xs = []"
      by (auto simp: filter_empty_conv)
    with True show ?thesis by simp
  next
    case False
    then show ?thesis using Cons by simp
  qed
qed

lemma m1_classify_Unknown: "m1_classify_category ''Unknown'' = Other"
  by (simp add: m1_classify_category_def py_lower_def lower_chr_def any_in_def)

lemma m2_classify_Unknown: "m2_classify_category ''Unknown'' = Other"
  by (simp add: m2_classify_category_def py_lower_def lower_chr_def any_in_def)

lemma m2_save_empty:
  "\<not> has_hash d h \<Longrightarrow>
   m2_save sf d h [] =
     (Saved, \<lparr>receipts = receipts d @
                 [\<lparr>r_id = Suc (last_id d), r_merchant = PStr ''Unknown'', r_date = PNone,
                   r_total = 0, r_currency = PStr [], r_category = Other,
                   r_raw_json = [], r_file_hash = h\<rparr>],
              last_id = Suc (last_id d)\<rparr>)"
  by (simp add: m2_save_def dict_get_def classify_value_def m2_classify_Unknown
      insert_receipt_def safe_float_def)

subsection \<open>Claim C5\<close>

text \<open>
  Claim C5. A run of the Upload tab on a file whose hash is already in the table ends with
  the duplicate message and leaves the table as it was, in both milestones. Whenever the
  stored hashes are pairwise distinct (as the \<^verbatim>\<open>UNIQUE\<close> column guarantees, and as in the
  empty table) they still are after any sequence of runs, so at most one row carries any
  given hash.
\<close>

theorem file_hash_unique:
  "(has_hash d (u_file_hash u) \<longrightarrow>
      m1_upload loads sf isodate d u = (DuplicateFile, d)
      \<and> m2_upload loads sf d u = (DuplicateFile, d))
   \<and> (distinct (map r_file_hash (receipts d)) \<longrightarrow>
        distinct (map r_file_hash (receipts (m1_uploads loads sf isodate d us)))
        \<and> distinct (map r_file_hash (receipts (m2_uploads loads sf d us)))
        \<and> length (filter (\<lambda>r. r_file_hash r = h)
                    (receipts (m1_uploads loads sf isodate d us))) \<le> 1
        \<and> length (filter (\<lambda>r. r_file_hash r = h)
                    (receipts (m2_uploads loads sf d us))) \<le> 1)"
proof -
  have a: "has_hash d (u_file_hash u) \<longrightarrow>
      m1_upload loads sf isodate d u = (DuplicateFile, d)
      \<and> m2_upload loads sf d u = (DuplicateFile, d)"
    by (simp add: m1_upload_def m2_upload_def)
  have b: "distinct (map r_file_hash (receipts d)) \<longrightarrow>
        distinct (map r_file_hash (receipts (m1_uploads loads sf isodate d us)))
        \<and> distinct (map r_file_hash (receipts (m2_uploads loads sf d us)))"
    by (simp add: m1_uploads_distinct m2_uploads_distinct)
  have c: "distinct (map r_file_hash (receipts d)) \<longrightarrow>
        length (filter (\<lambda>r. r_file_hash r = h)
                    (receipts (m1_uploads loads sf isodate d us))) \<le> 1
        \<and> length (filter (\<lambda>r. r_file_hash r = h)
                    (receipts (m2_uploads loads sf d us))) \<le> 1"
  proof (intro impI conjI)
    assume k: "distinct (map r_file_hash (receipts d))"
    show "length (filter (\<lambda>r. r_file_hash r = h)
                    (receipts (m1_uploads loads sf isodate d us))) \<le> 1"
      by (rule distinct_at_most_one) (rule m1_uploads_distinct [OF k])
    show "length (filter (\<lambda>r. r_file_hash r = h)
                    (receipts (m2_uploads loads sf d us))) \<le> 1"
      by (rule distinct_at_most_one) (rule m2_uploads_distinct [OF k])
  qed
  from a b c show ?thesis by blast
qed

theorem file_hash_unique_witness:
  "has_hash \<lparr>receipts = [\<lparr>r_id = 1, r_merchant = PStr ''Unknown'', r_date = PNone,
                            r_total = 0, r_currency = PStr [], r_category = Other,
                            r_raw_json = [], r_file_hash = ''d41d8cd9''\<rparr>],
              last_id = 1\<rparr> ''d41d8cd9''
   \<and> m2_uploads Map.empty Map.empty \<lparr>receipts = [], last_id = 0\<rparr>
        [\<lparr>u_file_hash = ''d41d8cd9'', u_image_ok = True, u_pressed = True,
          u_response = None\<rparr>,
         \<lparr>u_file_hash = ''d41d8cd9'', u_image_ok = True, u_pressed = True,
          u_response = None\<rparr>]
       = \<lparr>receipts = [\<lparr>r_id = 1, r_merchant = PStr ''Unknown'', r_date = PNone,
                        r_total = 0, r_currency = PStr [], r_category = Other,
                        r_raw_json = [], r_file_hash = ''d41d8cd9''\<rparr>],
          last_id = 1\<rparr>
   \<and> m1_upload Map.empty Map.empty Map.empty
        \<lparr>receipts = [\<lparr>r_id = 1, r_merchant = PStr ''Unknown'', r_date = PNone,
                        r_total = 0, r_currency = PStr [], r_category = Other,
                        r_raw_json = [], r_file_hash = ''d41d8cd9''\<rparr>],
          last_id = 1\<rparr>
        \<lparr>u_file_hash = ''d41d8cd9'', u_image_ok = True, u_pressed = True,
          u_response = None\<rparr>
       = (DuplicateFile,
          \<lparr>receipts = [\<lparr>r_id = 1, r_merchant = PStr ''Unknown'', r_date = PNone,
                        r_total = 0, r_currency = PStr [], r_category = Other,
                        r_raw_json = [], r_file_hash = ''d41d8cd9''\<rparr>],
          last_id = 1\<rparr>)
   \<and> distinct (map r_file_hash (receipts
        (m2_uploads Map.empty Map.empty \<lparr>receipts = [], last_id = 0\<rparr>
          [\<lparr>u_file_hash = ''d41d8cd9'', u_image_ok = True, u_pressed = True,
            u_response = None\<rparr>,
           \<lparr>u_file_hash = ''d41d8cd9'', u_image_ok = True, u_pressed = True,
            u_response = None\<rparr>])))"
proof -
  let ?r = "\<lparr>r_id = 1, r_merchant = PStr ''Unknown'', r_date = PNone,
             r_total = 0, r_currency = PStr [], r_category = Other,
             r_raw_json = [], r_file_hash = ''d41d8cd9''\<rparr>"
  let ?d0 = "\<lparr>receipts = [], last_id = 0\<rparr>"
  let ?d1 = "\<lparr>receipts = [?r], last_id = 1\<rparr>"
  let ?u = "\<lparr>u_file_hash = ''d41d8cd9'', u_image_ok = True, u_pressed = True,
             u_response = None\<rparr>"
  have h: "has_hash ?d1 (u_file_hash ?u)"
    by (simp add: has_hash_def)
  have n: "\<not> has_hash ?d0 ''d41d8cd9''"
    by (simp add: has_hash_def)
  have s1: "m2_upload Map.empty Map.empty ?d0 ?u = (Saved, ?d1)"
    using m2_save_empty [OF n, of Map.empty]
    by (simp add: m2_upload_def m2_analyze_receipt_def has_hash_def)
  have s2: "m2_upload Map.empty Map.empty ?d1 ?u = (DuplicateFile, ?d1)"
    by (simp add: m2_upload_def has_hash_def)
  have run: "m2_uploads Map.empty Map.empty ?d0 [?u, ?u] = ?d1"
    by (simp only: m2_uploads_def foldl.simps s1 s2 snd_conv)
  have d0: "distinct (map r_file_hash (receipts ?d0))"
    by simp
  from file_hash_unique
    [where d = ?d1 and u = ?u and loads = Map.empty and sf = Map.empty
       and isodate = Map.empty and us = "[]" and h = "''d41d8cd9''"]
    h
  have dup: "m1_upload Map.empty Map.empty Map.empty ?d1 ?u = (DuplicateFile, ?d1)"
    by blast
  from h dup run show ?thesis by simp
qed

subsection \<open>Claim C4\<close>

text \<open>
  Claim C4, as stated, fails on milestone 2. Its \<^verbatim>\<open>safe_json\<close> answers an unparsable
  response with the empty dict, nothing in the Upload tab tests for it, and the insert is
  done: after the response ``Sorry, I cannot process this image.'' the empty table holds
  one row, with merchant ``Unknown'' and total 0.
\<close>

theorem m2_upload_stores_unparsed_answer:
  "m2_upload Map.empty Map.empty \<lparr>receipts = [], last_id = 0\<rparr>
     \<lparr>u_file_hash = ''0cc175b9'', u_image_ok = True, u_pressed = True,
      u_response = Some ''Sorry, I cannot process this image.''\<rparr>
   = (Saved,
      \<lparr>receipts = [\<lparr>r_id = 1, r_merchant = PStr ''Unknown'', r_date = PNone,
                    r_total = 0, r_currency = PStr [], r_category = Other,
                    r_raw_json = [], r_file_hash = ''0cc175b9''\<rparr>],
       last_id = 1\<rparr>)"
proof -
  have n: "\<not> has_hash \<lparr>receipts = [], last_id = 0\<rparr> ''0cc175b9''"
    by (simp add: has_hash_def)
  have j: "m2_safe_json Map.empty ''Sorry, I cannot process this image.'' = []"
    by (simp add: m2_safe_json_def)
  show ?thesis
    using m2_save_empty [OF n, of Map.empty]
    by (simp add: m2_upload_def m2_analyze_receipt_def j has_hash_def)
qed

text \<open>
  Claim C4, amended. In milestone 1, \<^verbatim>\<open>safe_json\<close> returns \<^verbatim>\<open>None\<close> without
  raising exactly when the response holds no recoverable JSON (no opening brace, no
  closing brace, or an unparsable text between the first opening and the last closing
  brace); the run of the Upload tab then leaves the table unchanged, and when it reaches
  the extraction (new hash, button pressed) it ends with ``AI extraction failed''. In
  milestone 2, \<^verbatim>\<open>safe_json\<close> returns the empty dict instead, without raising, and the
  run does not abort: for a new hash it inserts a row with merchant ``Unknown'', no
  date, total 0, empty currency, category Other and the empty payload.
\<close>

theorem parse_failure_aborts_m1_upload:
  "(m1_safe_json loads answer = None \<longleftrightarrow> no_recoverable_json loads answer)
   \<and> (no_recoverable_json loads answer \<and> u_response u = Some answer \<longrightarrow>
        snd (m1_upload loads sf isodate d u) = d
        \<and> m2_safe_json loads answer = []
        \<and> (\<not> has_hash d (u_file_hash u) \<and> u_image_ok u \<and> u_pressed u \<longrightarrow>
             m1_upload loads sf isodate d u = (ExtractionFailed, d)
             \<and> m2_upload loads sf d u =
                 (Saved,
                  \<lparr>receipts = receipts d @
                     [\<lparr>r_id = Suc (last_id d), r_merchant = PStr ''Unknown'',
                       r_date = PNone, r_total = 0, r_currency = PStr [],
                       r_category = Other, r_raw_json = [],
                       r_file_hash = u_file_hash u\<rparr>],
                   last_id = Suc (last_id d)\<rparr>)))"
proof -
  have a: "m1_safe_json loads answer = None \<longleftrightarrow> no_recoverable_json loads answer"
    by (rule m1_safe_json_None_iff)
  have b: "snd (m1_upload loads sf isodate d u) = d"
    if "no_recoverable_json loads answer" "u_response u = Some answer"
    using that a
    by (simp add: m1_upload_def m1_analyze_receipt_def m1_save_def)
  have c: "m2_safe_json loads answer = []" if "no_recoverable_json loads answer"
    using that by (rule m2_safe_json_failed)
  have e: "m1_upload loads sf isodate d u = (ExtractionFailed, d)"
    if "no_recoverable_json loads answer" "u_response u = Some answer"
      "\<not> has_hash d (u_file_hash u)" "u_image_ok u" "u_pressed u"
    using that a
    by (simp add: m1_upload_def m1_analyze_receipt_def m1_save_def)
  have f: "m2_upload loads sf d u =
      (Saved,
       \<lparr>receipts = receipts d @
          [\<lparr>r_id = Suc (last_id d), r_merchant = PStr ''Unknown'',
            r_date = PNone, r_total = 0, r_currency = PStr [],
            r_category = Other, r_raw_json = [],
            r_file_hash = u_file_hash u\<rparr>],
        last_id = Suc (last_id d)\<rparr>)"
    if "no_recoverable_json loads answer" "u_response u = Some answer"
      "\<not> has_hash d (u_file_hash u)" "u_image_ok u" "u_pressed u"
    using that c m2_save_empty [of d "u_file_hash u" sf]
    by (simp add: m2_upload_def m2_analyze_receipt_def)
  from a b c e f show ?thesis by blast
qed

theorem parse_failure_aborts_m1_upload_witness:
  "no_recoverable_json Map.empty ''Sorry, I cannot process this image.''
   \<and> m1_safe_json Map.empty ''Sorry, I cannot process this image.'' = None
   \<and> m1_upload Map.empty Map.empty Map.empty \<lparr>receipts = [], last_id = 0\<rparr>
        \<lparr>u_file_hash = ''0cc175b9'', u_image_ok = True, u_pressed = True,
         u_response = Some ''Sorry, I cannot process this image.''\<rparr>
       = (ExtractionFailed, \<lparr>receipts = [], last_id = 0\<rparr>)"
proof -
  let ?u = "\<lparr>u_file_hash = ''0cc175b9'', u_image_ok = True, u_pressed = True,
         u_response = Some ''Sorry, I cannot process this image.''\<rparr>"
  have n: "no_recoverable_json Map.empty ''Sorry, I cannot process this image.''"
    by (simp add: no_recoverable_json_def)
  have r: "u_response ?u = Some ''Sorry, I cannot process this image.''"
    by simp
  have h: "\<not> has_hash \<lparr>receipts = [], last_id = 0\<rparr> (u_file_hash ?u)"
    by (simp add: has_hash_def)
  have p: "u_image_ok ?u" "u_pressed ?u"
    by simp_all
  from parse_failure_aborts_m1_upload
    [where loads = Map.empty and answer = "''Sorry, I cannot process this image.''"
       and u = ?u and sf = Map.empty and isodate = Map.empty
       and d = "\<lparr>receipts = [], last_id = 0\<rparr>"]
    n r h p
  show ?thesis by blast
qed

subsection \<open>Claim C7\<close>






subsection \<open>Claim C3\<close>






end
